theory Spec2Isabelle
  imports Complex_Main
begin

section \<open>Python values, exceptions and effects\<close>

text \<open>
  The agent (\<^verbatim>\<open>src/agent/agent.py\<close>) talks to psutil, requests, socket, docker, the clock
  and the logger. Every answer of such a collaborator is an argument of the model (the
  reply the call got), every exception a value, and every visible action (a log line, a
  request sent, a sleep) an entry of an effect trace that the function returns.

  Exceptions: \<open>KeyboardInterrupt\<close> is the only exception outside Python's \<open>Exception\<close>
  class that the runtime delivers to the agent's calls; every other exception is
  \<open>Exc cls msg\<close>, an instance of a subclass of \<open>Exception\<close> with \<open>str(e) = msg\<close>.
  \<open>sys.exit\<close> is called by \<open>load_config\<close> only and is a result of its own there.
\<close>

datatype exc_class =
    FileNotFoundError | OSError | YAMLError | ValidationError
  | HTTPError | ConnectionError | Timeout | MissingSchema
  | ZeroDivisionError | KeyError | TypeError | AttributeError | ValueError | OverflowError
  | ImportError | OtherException

datatype py_exn = KeyboardInterrupt | Exc exc_class string

text \<open>\<open>except Exception\<close> matches everything but \<open>KeyboardInterrupt\<close>.\<close>

fun is_Exception :: "py_exn \<Rightarrow> bool" where
  "is_Exception KeyboardInterrupt = False"
| "is_Exception (Exc c m) = True"

text \<open>\<open>except requests.exceptions.RequestException\<close>: the classes of requests.\<close>

fun is_RequestException :: "py_exn \<Rightarrow> bool" where
  "is_RequestException (Exc HTTPError m) = True"
| "is_RequestException (Exc ConnectionError m) = True"
| "is_RequestException (Exc Timeout m) = True"
| "is_RequestException (Exc MissingSchema m) = True"
| "is_RequestException e = False"

fun is_ImportError :: "py_exn \<Rightarrow> bool" where
  "is_ImportError (Exc ImportError m) = True"
| "is_ImportError e = False"

text \<open>\<open>str(e)\<close>.\<close>

fun exn_str :: "py_exn \<Rightarrow> string" where
  "exn_str KeyboardInterrupt = []"
| "exn_str (Exc c m) = m"

text \<open>
  Values of dictionaries and of the parsed configuration document. Python floats are
  exact rationals here (\<open>JNum\<close>): the model does not round to 53 bits.
\<close>

datatype json =
    JNull | JBool bool | JInt int | JNum rat | JStr string
  | JList "json list" | JDict "(string \<times> json) list"

datatype level = INFO | WARNING | ERROR

datatype effect =
    Log level string
  | HttpPost string json
  | Sleep int

text \<open>\<open>str(n)\<close> of an integer, in decimal.\<close>

definition digit_char :: "nat \<Rightarrow> char" where
  "digit_char d = ''0123456789'' ! (d mod 10)"

function str_nat :: "nat \<Rightarrow> string" where
  "str_nat n = (if n < 10 then [digit_char n] else str_nat (n div 10) @ [digit_char (n mod 10)])"
  by pat_completeness auto
termination
  by (relation "measure (\<lambda>n. n)") auto

definition str_int :: "int \<Rightarrow> string" where
  "str_int i = (if i < 0 then CHR ''-'' # str_nat (nat (- i)) else str_nat (nat i))"

text \<open>\<open>a / b\<close> on numbers (true division) raises on a zero divisor; \<open>int(x)\<close> truncates
  toward zero.\<close>

definition py_truediv :: "rat \<Rightarrow> rat \<Rightarrow> py_exn + rat" where
  "py_truediv a b =
     (if b = 0 then Inl (Exc ZeroDivisionError ''float division by zero'') else Inr (a / b))"

definition py_int :: "rat \<Rightarrow> int" where
  "py_int x = (if 0 \<le> x then \<lfloor>x\<rfloor> else \<lceil>x\<rceil>)"

section \<open>Configuration models\<close>

record ServerConfig =
  server_url :: string
  api_key :: string

record CollectionConfig =
  interval_seconds :: int
  include_docker :: bool
  disk_mounts :: "string list"

text \<open>\<open>HealthCheckConfig\<close>: the fields \<open>name\<close>, \<open>type\<close>, \<open>url\<close>, \<open>host\<close>, \<open>port\<close>,
  \<open>expected_status\<close> of the source.\<close>

record HealthCheckConfig =
  check_name :: string
  check_type :: string
  url :: "string option"
  host :: "string option"
  port :: "int option"
  expected_status :: "int option"

record AgentConfig =
  server :: ServerConfig
  collection :: CollectionConfig
  health_checks :: "HealthCheckConfig list"

text \<open>The defaults of \<open>CollectionConfig\<close>.\<close>

definition default_collection :: CollectionConfig where
  "default_collection =
     \<lparr>interval_seconds = 30, include_docker = True, disk_mounts = [''/'']\<rparr>"

section \<open>MetricsCollector: rates of the cumulative counters\<close>

text \<open>What \<open>psutil.disk_io_counters()\<close> and \<open>psutil.net_io_counters()\<close> return: the
  fields the agent reads. psutil returns \<open>None\<close> on a host without disks or interfaces.\<close>

record sdiskio =
  read_bytes :: int
  write_bytes :: int

record snetio =
  bytes_sent :: int
  bytes_recv :: int

text \<open>The collector's attributes. There is one \<open>last_time\<close> for both counters.\<close>

record MetricsCollector =
  config :: CollectionConfig
  last_disk_io :: "sdiskio option"
  last_net_io :: "snetio option"
  last_time :: "rat option"

definition MetricsCollector_init :: "CollectionConfig \<Rightarrow> MetricsCollector" where
  "MetricsCollector_init c =
     \<lparr>config = c, last_disk_io = None, last_net_io = None, last_time = None\<rparr>"

definition disk_io_dict :: "int \<Rightarrow> int \<Rightarrow> int \<Rightarrow> int \<Rightarrow> json" where
  "disk_io_dict rb wb rr wr =
     JDict [(''read_bytes'', JInt rb), (''write_bytes'', JInt wb),
            (''read_bytes_per_sec'', JInt rr), (''write_bytes_per_sec'', JInt wr)]"

definition network_dict :: "int \<Rightarrow> int \<Rightarrow> int \<Rightarrow> int \<Rightarrow> json" where
  "network_dict bs br sr rr =
     JDict [(''bytes_sent'', JInt bs), (''bytes_recv'', JInt br),
            (''bytes_sent_per_sec'', JInt sr), (''bytes_recv_per_sec'', JInt rr)]"

text \<open>
  \<open>collect_disk_io_metrics\<close>: \<open>current_io\<close> is the reply of psutil and \<open>current_time\<close>
  that of \<open>time.time()\<close>. An exception leaves the attributes as they were: both
  assignments come after the divisions.
\<close>

definition collect_disk_io_metrics ::
  "MetricsCollector \<Rightarrow> sdiskio option \<Rightarrow> rat \<Rightarrow> (py_exn + json) \<times> MetricsCollector" where
  "collect_disk_io_metrics self current_io current_time =
     (case (last_disk_io self, last_time self) of
        (Some prev, Some prev_time) \<Rightarrow>
          (case current_io of
             None \<Rightarrow>
               (Inl (Exc AttributeError ''NoneType object has no attribute read_bytes''), self)
           | Some cur \<Rightarrow>
               (let time_delta = current_time - prev_time in
                case py_truediv (of_int (read_bytes cur - read_bytes prev)) time_delta of
                  Inl e \<Rightarrow> (Inl e, self)
                | Inr read_rate \<Rightarrow>
                    (case py_truediv (of_int (write_bytes cur - write_bytes prev)) time_delta of
                       Inl e \<Rightarrow> (Inl e, self)
                     | Inr write_rate \<Rightarrow>
                         (Inr (disk_io_dict (read_bytes cur) (write_bytes cur)
                                 (py_int read_rate) (py_int write_rate)),
                          self\<lparr>last_disk_io := current_io,
                               last_time := Some current_time\<rparr>))))
      | _ \<Rightarrow>
          (Inr (disk_io_dict 0 0 0 0),
           self\<lparr>last_disk_io := current_io, last_time := Some current_time\<rparr>))"

text \<open>
  \<open>collect_network_metrics\<close>: the same shape, but after the first call only
  \<open>last_net_io\<close> is assigned; \<open>last_time\<close> is read and left as it is.
\<close>

definition collect_network_metrics ::
  "MetricsCollector \<Rightarrow> snetio option \<Rightarrow> rat \<Rightarrow> (py_exn + json) \<times> MetricsCollector" where
  "collect_network_metrics self current_net current_time =
     (case (last_net_io self, last_time self) of
        (Some prev, Some prev_time) \<Rightarrow>
          (case current_net of
             None \<Rightarrow>
               (Inl (Exc AttributeError ''NoneType object has no attribute bytes_sent''), self)
           | Some cur \<Rightarrow>
               (let time_delta = current_time - prev_time in
                case py_truediv (of_int (bytes_sent cur - bytes_sent prev)) time_delta of
                  Inl e \<Rightarrow> (Inl e, self)
                | Inr send_rate \<Rightarrow>
                    (case py_truediv (of_int (bytes_recv cur - bytes_recv prev)) time_delta of
                       Inl e \<Rightarrow> (Inl e, self)
                     | Inr recv_rate \<Rightarrow>
                         (Inr (network_dict (bytes_sent cur) (bytes_recv cur)
                                 (py_int send_rate) (py_int recv_rate)),
                          self\<lparr>last_net_io := current_net\<rparr>))))
      | _ \<Rightarrow>
          (Inr (network_dict 0 0 0 0),
           self\<lparr>last_net_io := current_net, last_time := Some current_time\<rparr>))"

section \<open>Operations on Python values\<close>

text \<open>Sequencing: an exception of the first statement skips the rest.\<close>

fun and_then :: "'e + 'a \<Rightarrow> ('a \<Rightarrow> 'e + 'b) \<Rightarrow> 'e + 'b" where
  "and_then (Inl e) f = Inl e"
| "and_then (Inr x) f = f x"

text \<open>\<open>d[k]\<close> with a string key, \<open>d.get(k, default)\<close>, truthiness, and arithmetic on
  numbers (\<open>bool\<close> is a subclass of \<open>int\<close>). The keys of a \<open>JDict\<close> are distinct, as
  those of a Python dictionary are; a lookup reads the first entry of a key.\<close>

fun dict_get :: "json \<Rightarrow> string \<Rightarrow> json option" where
  "dict_get (JDict kvs) k = map_of kvs k"
| "dict_get v k = None"

fun py_getitem :: "json \<Rightarrow> string \<Rightarrow> py_exn + json" where
  "py_getitem (JDict kvs) k =
     (case map_of kvs k of None \<Rightarrow> Inl (Exc KeyError k) | Some v \<Rightarrow> Inr v)"
| "py_getitem (JList xs) k = Inl (Exc TypeError ''list indices must be integers or slices, not str'')"
| "py_getitem (JStr s) k = Inl (Exc TypeError ''string indices must be integers, not str'')"
| "py_getitem v k = Inl (Exc TypeError ''object is not subscriptable'')"

fun py_get :: "json \<Rightarrow> string \<Rightarrow> json \<Rightarrow> py_exn + json" where
  "py_get (JDict kvs) k d = Inr (case map_of kvs k of None \<Rightarrow> d | Some v \<Rightarrow> v)"
| "py_get v k d = Inl (Exc AttributeError ''object has no attribute get'')"

fun py_truthy :: "json \<Rightarrow> bool" where
  "py_truthy JNull = False"
| "py_truthy (JBool b) = b"
| "py_truthy (JInt i) = (i \<noteq> 0)"
| "py_truthy (JNum r) = (r \<noteq> 0)"
| "py_truthy (JStr s) = (s \<noteq> [])"
| "py_truthy (JList xs) = (xs \<noteq> [])"
| "py_truthy (JDict kvs) = (kvs \<noteq> [])"

fun int_like :: "json \<Rightarrow> int option" where
  "int_like (JInt i) = Some i"
| "int_like (JBool b) = Some (if b then 1 else 0)"
| "int_like v = None"

fun num_val :: "json \<Rightarrow> rat option" where
  "num_val (JInt i) = Some (of_int i)"
| "num_val (JBool b) = Some (if b then 1 else 0)"
| "num_val (JNum r) = Some r"
| "num_val v = None"

definition py_sub :: "json \<Rightarrow> json \<Rightarrow> py_exn + json" where
  "py_sub a b =
     (case (int_like a, int_like b) of
        (Some x, Some y) \<Rightarrow> Inr (JInt (x - y))
      | _ \<Rightarrow>
        (case (num_val a, num_val b) of
           (Some x, Some y) \<Rightarrow> Inr (JNum (x - y))
         | _ \<Rightarrow> Inl (Exc TypeError ''unsupported operand type(s) for -'')))"

text \<open>\<open>x > 0\<close>.\<close>

definition py_gt0 :: "json \<Rightarrow> py_exn + bool" where
  "py_gt0 a =
     (case num_val a of
        Some x \<Rightarrow> Inr (0 < x)
      | None \<Rightarrow> Inl (Exc TypeError ''> not supported between these types''))"

text \<open>\<open>(a / b) * 100.0\<close>.\<close>

definition py_ratio_percent :: "json \<Rightarrow> json \<Rightarrow> py_exn + json" where
  "py_ratio_percent a b =
     (case (num_val a, num_val b) of
        (Some x, Some y) \<Rightarrow>
          (case py_truediv x y of Inl e \<Rightarrow> Inl e | Inr q \<Rightarrow> Inr (JNum (q * 100)))
      | _ \<Rightarrow> Inl (Exc TypeError ''unsupported operand type(s) for /''))"

text \<open>
  \<open>round(x, 2)\<close>: an \<open>int\<close> stays as it is; a float goes to the nearest multiple of
  \<open>1/100\<close>. On exact rationals a tie can occur (it rounds up here); on binary floats
  no value lies exactly between two multiples of \<open>1/100\<close>.
\<close>

definition round2 :: "rat \<Rightarrow> rat" where
  "round2 x = of_int (round (x * 100)) / 100"

fun py_round2 :: "json \<Rightarrow> py_exn + json" where
  "py_round2 (JInt i) = Inr (JInt i)"
| "py_round2 (JBool b) = Inr (JInt (if b then 1 else 0))"
| "py_round2 (JNum r) = Inr (JNum (round2 r))"
| "py_round2 v = Inl (Exc TypeError ''type does not define __round__ method'')"

section \<open>MetricsCollector: container metrics\<close>

text \<open>
  A container as the docker client presents it. \<open>stats_reply\<close> is what
  \<open>container.stats(stream=False)\<close> answers and \<open>image_reply\<close> what \<open>container.image.tags\<close>
  does (both are calls to the docker daemon).
\<close>

record container =
  container_id :: string
  container_name :: string
  status :: string
  attrs :: json
  image_reply :: "py_exn + string list"
  stats_reply :: "py_exn + json"

text \<open>\<open>cpu_percent = (cpu_delta / system_delta) * 100.0 if system_delta > 0 else 0\<close>, and
  the same expression for the memory.\<close>

definition guarded_percent :: "json \<Rightarrow> json \<Rightarrow> py_exn + json" where
  "guarded_percent part whole =
     (case py_gt0 whole of
        Inl e \<Rightarrow> Inl e
      | Inr positive \<Rightarrow> if positive then py_ratio_percent part whole else Inr (JInt 0))"

text \<open>\<open>stats[a][b][c]\<close> and \<open>stats['networks'].get('eth0', {}).get(k, 0)\<close>.\<close>

definition getitem2 :: "json \<Rightarrow> string \<Rightarrow> string \<Rightarrow> py_exn + json" where
  "getitem2 d a b = (case py_getitem d a of Inl e \<Rightarrow> Inl e | Inr x \<Rightarrow> py_getitem x b)"

definition getitem3 :: "json \<Rightarrow> string \<Rightarrow> string \<Rightarrow> string \<Rightarrow> py_exn + json" where
  "getitem3 d a b c = (case getitem2 d a b of Inl e \<Rightarrow> Inl e | Inr x \<Rightarrow> py_getitem x c)"

definition eth0_bytes :: "json \<Rightarrow> string \<Rightarrow> py_exn + json" where
  "eth0_bytes stats k =
     (case py_getitem stats ''networks'' of
        Inl e \<Rightarrow> Inl e
      | Inr nets \<Rightarrow>
        (case py_get nets ''eth0'' (JDict []) of
           Inl e \<Rightarrow> Inl e
         | Inr eth0 \<Rightarrow> py_get eth0 k (JInt 0)))"

text \<open>The reported CPU percentage of a running container: the lines that compute
  \<open>cpu_delta\<close>, \<open>system_delta\<close>, \<open>cpu_percent\<close> and \<open>round(cpu_percent, 2)\<close>.\<close>

definition container_cpu_percent :: "json \<Rightarrow> py_exn + json" where
  "container_cpu_percent stats =
     and_then (getitem3 stats ''cpu_stats'' ''cpu_usage'' ''total_usage'') (\<lambda>t1.
     and_then (getitem3 stats ''precpu_stats'' ''cpu_usage'' ''total_usage'') (\<lambda>t0.
     and_then (py_sub t1 t0) (\<lambda>cpu_delta.
     and_then (getitem2 stats ''cpu_stats'' ''system_cpu_usage'') (\<lambda>s1.
     and_then (getitem2 stats ''precpu_stats'' ''system_cpu_usage'') (\<lambda>s0.
     and_then (py_sub s1 s0) (\<lambda>system_delta.
     and_then (guarded_percent cpu_delta system_delta) (\<lambda>cpu_percent.
     py_round2 cpu_percent)))))))"

text \<open>The memory usage and its reported percentage: \<open>(mem_usage, round(mem_percent, 2))\<close>.\<close>

definition container_memory :: "json \<Rightarrow> py_exn + json \<times> json" where
  "container_memory stats =
     and_then (py_getitem stats ''memory_stats'') (\<lambda>ms.
     and_then (py_get ms ''usage'' (JInt 0)) (\<lambda>mem_usage.
     and_then (py_get ms ''limit'' (JInt 1)) (\<lambda>mem_limit.
     and_then (guarded_percent mem_usage mem_limit) (\<lambda>mem_percent.
     and_then (py_round2 mem_percent) (\<lambda>reported.
     Inr (mem_usage, reported))))))"

text \<open>The dictionary that \<open>container_info.update\<close> receives. Python evaluates the CPU
  lines, then the memory lines, then the entries of the dictionary in their order.\<close>

definition container_stats_update :: "json \<Rightarrow> py_exn + (string \<times> json) list" where
  "container_stats_update stats =
     and_then (container_cpu_percent stats) (\<lambda>cpu.
     and_then (container_memory stats) (\<lambda>(mem_usage, mem).
     and_then (eth0_bytes stats ''rx_bytes'') (\<lambda>rx.
     and_then (eth0_bytes stats ''tx_bytes'') (\<lambda>tx.
     Inr [(''cpu_percent'', cpu), (''memory_usage'', mem_usage), (''memory_percent'', mem),
          (''network_rx_bytes'', rx), (''network_tx_bytes'', tx)]))))"

text \<open>The body of the \<open>try\<close> inside the loop over the containers.\<close>

definition container_info :: "container \<Rightarrow> py_exn + json" where
  "container_info c =
     (case (if status c = ''running'' then stats_reply c else Inr (JDict [])) of
        Inl e \<Rightarrow> Inl e
      | Inr stats \<Rightarrow>
        (case image_reply c of
           Inl e \<Rightarrow> Inl e
         | Inr tags \<Rightarrow>
           (case py_getitem (attrs c) ''Created'' of
              Inl e \<Rightarrow> Inl e
            | Inr created \<Rightarrow>
              (let info = [(''id'', JStr (take 12 (container_id c))),
                           (''name'', JStr (container_name c)),
                           (''image'', JStr (case tags of [] \<Rightarrow> ''unknown'' | t # ts \<Rightarrow> t)),
                           (''status'', JStr (status c)),
                           (''created'', created)]
               in if status c = ''running'' \<and> py_truthy stats
                  then (case container_stats_update stats of
                          Inl e \<Rightarrow> Inl e
                        | Inr upd \<Rightarrow> Inr (JDict (info @ upd)))
                  else Inr (JDict info)))))"

text \<open>The loop over \<open>client.containers.list(all=True)\<close>: an \<open>Exception\<close> of one container
  is logged and the container left out; anything else leaves the loop.\<close>

fun containers_loop :: "json list \<Rightarrow> container list \<Rightarrow> effect list \<times> (py_exn + json list)" where
  "containers_loop containers [] = ([], Inr containers)"
| "containers_loop containers (c # cs) =
     (case container_info c of
        Inr info \<Rightarrow> containers_loop (containers @ [info]) cs
      | Inl e \<Rightarrow>
          if is_Exception e
          then (let (logs, r) = containers_loop containers cs
                in (Log WARNING (''Failed to get stats for container '' @ container_name c
                                   @ '': '' @ exn_str e) # logs, r))
          else ([], Inl e))"

text \<open>\<open>collect_docker_metrics\<close>: \<open>docker_reply\<close> answers \<open>import docker\<close>,
  \<open>docker.from_env()\<close> and \<open>client.containers.list(all=True)\<close>.\<close>

definition collect_docker_metrics ::
  "CollectionConfig \<Rightarrow> (py_exn + container list) \<Rightarrow> effect list \<times> (py_exn + json list)" where
  "collect_docker_metrics cfg docker_reply =
     (if \<not> include_docker cfg then ([], Inr [])
      else
        (case docker_reply of
           Inr cs \<Rightarrow> containers_loop [] cs
         | Inl e \<Rightarrow>
             if is_ImportError e
             then ([Log WARNING ''Docker library not installed, skipping Docker metrics''], Inr [])
             else if is_Exception e
             then ([Log WARNING (''Failed to collect Docker metrics: '' @ exn_str e)], Inr [])
             else ([], Inl e)))"

section \<open>MetricsCollector: one snapshot\<close>

text \<open>
  What the host answers during one \<open>collect_all\<close>. The sub-collections for the system
  information, the CPU, the memory and the disk usage only read psutil: their result, or
  the exception they raise, is the reply. The time stamps are those of the two calls of
  \<open>time.time()\<close> in the rate collections.
\<close>

record collect_env =
  timestamp_now :: string
  system_info_reply :: "py_exn + json"
  cpu_reply :: "py_exn + json"
  memory_reply :: "py_exn + json"
  disks_reply :: "py_exn + json"
  disk_io_reply :: "py_exn + sdiskio option"
  disk_io_time :: rat
  net_io_reply :: "py_exn + snetio option"
  net_io_time :: rat
  docker_reply :: "py_exn + container list"

text \<open>
  \<open>collect_all\<close> evaluates the entries of its dictionary in their order; the first
  exception ends it, and what \<open>collect_disk_io_metrics\<close> and \<open>collect_network_metrics\<close>
  have assigned by then stays assigned.
\<close>

definition collect_all ::
  "MetricsCollector \<Rightarrow> collect_env \<Rightarrow> (effect list \<times> (py_exn + json)) \<times> MetricsCollector" where
  "collect_all self env =
     (case system_info_reply env of Inl e \<Rightarrow> (([], Inl e), self) | Inr system \<Rightarrow>
     (case cpu_reply env of Inl e \<Rightarrow> (([], Inl e), self) | Inr cpu \<Rightarrow>
     (case memory_reply env of Inl e \<Rightarrow> (([], Inl e), self) | Inr memory \<Rightarrow>
     (case disks_reply env of Inl e \<Rightarrow> (([], Inl e), self) | Inr disks \<Rightarrow>
     (case disk_io_reply env of Inl e \<Rightarrow> (([], Inl e), self) | Inr current_io \<Rightarrow>
     (case collect_disk_io_metrics self current_io (disk_io_time env) of
        (Inl e, self1) \<Rightarrow> (([], Inl e), self1)
      | (Inr disk_io, self1) \<Rightarrow>
     (case net_io_reply env of Inl e \<Rightarrow> (([], Inl e), self1) | Inr current_net \<Rightarrow>
     (case collect_network_metrics self1 current_net (net_io_time env) of
        (Inl e, self2) \<Rightarrow> (([], Inl e), self2)
      | (Inr network, self2) \<Rightarrow>
     (case collect_docker_metrics (config self2) (docker_reply env) of
        (logs, Inl e) \<Rightarrow> ((logs, Inl e), self2)
      | (logs, Inr containers) \<Rightarrow>
          ((logs,
            Inr (JDict [(''timestamp'', JStr (timestamp_now env)),
                        (''system'', system),
                        (''metrics'', JDict [(''cpu'', cpu), (''memory'', memory),
                                             (''disks'', disks), (''disk_io'', disk_io),
                                             (''network'', network)]),
                        (''containers'', JList containers)])),
           self2))))))))))"

section \<open>HealthChecker\<close>

record response =
  status_code :: int
  reason :: string

text \<open>
  What the network answers to one probe: the reply to the GET, the reply to
  \<open>connect_ex\<close>, and the clock before and after the GET.
\<close>

record probe_env =
  http_reply :: "py_exn + response"
  tcp_reply :: "py_exn + int"
  start_time :: rat
  end_time :: rat

text \<open>\<open>requests.get(None)\<close> raises \<open>MissingSchema\<close> before anything is sent.\<close>

definition requests_get :: "string option \<Rightarrow> (py_exn + response) \<Rightarrow> py_exn + response" where
  "requests_get u reply =
     (case u of
        None \<Rightarrow> Inl (Exc MissingSchema ''Invalid URL None: No scheme supplied'')
      | Some a \<Rightarrow> reply)"

text \<open>\<open>sock.connect_ex((host, port))\<close> refuses a host that is no string, then a port that
  is no integer in \<open>0..65535\<close>, before it connects.\<close>

definition connect_ex :: "string option \<Rightarrow> int option \<Rightarrow> (py_exn + int) \<Rightarrow> py_exn + int" where
  "connect_ex h p reply =
     (case h of
        None \<Rightarrow> Inl (Exc TypeError ''str, bytes or bytearray expected, not NoneType'')
      | Some a \<Rightarrow>
        (case p of
           None \<Rightarrow> Inl (Exc TypeError ''NoneType object cannot be interpreted as an integer'')
         | Some n \<Rightarrow>
             if n < 0 \<or> 65535 < n then Inl (Exc OverflowError ''port must be 0-65535'')
             else reply))"

text \<open>\<open>f"{x}"\<close> of an optional integer.\<close>

definition str_opt_int :: "int option \<Rightarrow> string" where
  "str_opt_int x = (case x of None \<Rightarrow> ''None'' | Some i \<Rightarrow> str_int i)"

definition opt_str_json :: "string option \<Rightarrow> json" where
  "opt_str_json x = (case x of None \<Rightarrow> JNull | Some s \<Rightarrow> JStr s)"

definition opt_int_json :: "int option \<Rightarrow> json" where
  "opt_int_json x = (case x of None \<Rightarrow> JNull | Some i \<Rightarrow> JInt i)"

text \<open>The dictionary of both \<open>except Exception as e\<close> branches.\<close>

definition failed_check :: "HealthCheckConfig \<Rightarrow> string \<Rightarrow> py_exn \<Rightarrow> json" where
  "failed_check cfg kind e =
     JDict [(''name'', JStr (check_name cfg)), (''type'', JStr kind),
            (''healthy'', JBool False), (''message'', JStr (exn_str e))]"

definition check_http :: "HealthCheckConfig \<Rightarrow> probe_env \<Rightarrow> py_exn + json" where
  "check_http cfg env =
     (case requests_get (url cfg) (http_reply env) of
        Inl e \<Rightarrow> if is_Exception e then Inr (failed_check cfg ''http'' e) else Inl e
      | Inr resp \<Rightarrow>
          (let response_time = end_time env - start_time env;
               is_healthy = (Some (status_code resp) = expected_status cfg)
           in Inr (JDict [(''name'', JStr (check_name cfg)),
                          (''type'', JStr ''http''),
                          (''healthy'', JBool is_healthy),
                          (''status_code'', JInt (status_code resp)),
                          (''response_time_ms'', JInt (py_int (response_time * 1000))),
                          (''message'',
                           JStr (if is_healthy then ''OK''
                                 else ''Expected '' @ str_opt_int (expected_status cfg)
                                      @ '', got '' @ str_int (status_code resp)))])))"

definition check_tcp :: "HealthCheckConfig \<Rightarrow> probe_env \<Rightarrow> py_exn + json" where
  "check_tcp cfg env =
     (case connect_ex (host cfg) (port cfg) (tcp_reply env) of
        Inl e \<Rightarrow> if is_Exception e then Inr (failed_check cfg ''tcp'' e) else Inl e
      | Inr result \<Rightarrow>
          (let is_healthy = (result = 0)
           in Inr (JDict [(''name'', JStr (check_name cfg)),
                          (''type'', JStr ''tcp''),
                          (''healthy'', JBool is_healthy),
                          (''host'', opt_str_json (host cfg)),
                          (''port'', opt_int_json (port cfg)),
                          (''message'',
                           JStr (if is_healthy then ''Port is open'' else ''Port is closed''))])))"

text \<open>
  The loop of \<open>check_all\<close>: \<open>results\<close> is the list built so far, \<open>i\<close> the position of the
  next check in the configured list, and \<open>world i\<close> what the network answers to it.
\<close>

fun check_all_loop ::
  "(nat \<Rightarrow> probe_env) \<Rightarrow> nat \<Rightarrow> json list \<Rightarrow> HealthCheckConfig list \<Rightarrow> py_exn + json list" where
  "check_all_loop world i results [] = Inr results"
| "check_all_loop world i results (c # cs) =
     (if check_type c = ''http''
      then (case check_http c (world i) of
              Inl e \<Rightarrow> Inl e
            | Inr r \<Rightarrow> check_all_loop world (Suc i) (results @ [r]) cs)
      else if check_type c = ''tcp''
      then (case check_tcp c (world i) of
              Inl e \<Rightarrow> Inl e
            | Inr r \<Rightarrow> check_all_loop world (Suc i) (results @ [r]) cs)
      else check_all_loop world (Suc i) results cs)"

definition check_all :: "(nat \<Rightarrow> probe_env) \<Rightarrow> HealthCheckConfig list \<Rightarrow> py_exn + json list" where
  "check_all world checks = check_all_loop world 0 [] checks"

section \<open>Agent: loading the configuration\<close>

text \<open>String tests of Python: \<open>s.startswith(p)\<close>, \<open>s.endswith(p)\<close>, \<open>p in s\<close>.\<close>

definition starts_with :: "string \<Rightarrow> string \<Rightarrow> bool" where
  "starts_with p s = (take (length p) s = p)"

definition ends_with :: "string \<Rightarrow> string \<Rightarrow> bool" where
  "ends_with p s = (length p \<le> length s \<and> drop (length s - length p) s = p)"

fun is_substring :: "string \<Rightarrow> string \<Rightarrow> bool" where
  "is_substring p [] = (p = [])"
| "is_substring p (c # cs) = (starts_with p (c # cs) \<or> is_substring p cs)"

text \<open>\<open>k in v\<close> for a string \<open>k\<close>.\<close>

fun py_contains :: "string \<Rightarrow> json \<Rightarrow> py_exn + bool" where
  "py_contains k (JDict kvs) = Inr (map_of kvs k \<noteq> None)"
| "py_contains k (JList xs) = Inr (List.member xs (JStr k))"
| "py_contains k (JStr s) = Inr (is_substring k s)"
| "py_contains k v = Inl (Exc TypeError ''argument is not iterable'')"

text \<open>\<open>d[k] = v\<close> on the entries of a dictionary: an existing key keeps its place.\<close>

fun dict_set :: "(string \<times> json) list \<Rightarrow> string \<Rightarrow> json \<Rightarrow> (string \<times> json) list" where
  "dict_set [] k v = [(k, v)]"
| "dict_set ((k', v') # kvs) k v =
     (if k' = k then (k, v) # kvs else (k', v') # dict_set kvs k v)"

fun py_setitem :: "json \<Rightarrow> string \<Rightarrow> json \<Rightarrow> py_exn + json" where
  "py_setitem (JDict kvs) k v = Inr (JDict (dict_set kvs k v))"
| "py_setitem d k v = Inl (Exc TypeError ''object does not support item assignment'')"

text \<open>\<open>os.getenv(name, '')\<close>.\<close>

definition getenv :: "(string \<Rightarrow> string option) \<Rightarrow> string \<Rightarrow> string" where
  "getenv environ n = (case environ n of None \<Rightarrow> [] | Some v \<Rightarrow> v)"

text \<open>The substitution of the environment variable, on the parsed document: the lines
  from \<open>api_key.startswith\<close> on, for the value \<open>api_key\<close> found under the server
  \<open>srv\<close>, and the whole of it.\<close>

fun replace_placeholder ::
  "(string \<Rightarrow> string option) \<Rightarrow> json \<Rightarrow> json \<Rightarrow> json \<Rightarrow> py_exn + json" where
  "replace_placeholder environ config_dict srv (JStr s) =
     (if starts_with ''${'' s \<and> ends_with ''}'' s
      then and_then (py_setitem srv ''api_key''
                       (JStr (getenv environ (drop 2 (butlast s))))) (\<lambda>srv'.
           py_setitem config_dict ''server'' srv')
      else Inr config_dict)"
| "replace_placeholder environ config_dict srv v =
     Inl (Exc AttributeError ''object has no attribute startswith'')"

definition substitute_api_key :: "(string \<Rightarrow> string option) \<Rightarrow> json \<Rightarrow> py_exn + json" where
  "substitute_api_key environ config_dict =
     and_then (py_contains ''server'' config_dict) (\<lambda>has_server.
     if \<not> has_server then Inr config_dict
     else
       and_then (py_getitem config_dict ''server'') (\<lambda>srv.
       and_then (py_contains ''api_key'' srv) (\<lambda>has_key.
       if \<not> has_key then Inr config_dict
       else
         and_then (py_getitem srv ''api_key'')
           (replace_placeholder environ config_dict srv))))"

text \<open>
  The validation of pydantic. A value of the declared type is taken as it is. What
  pydantic makes of a value of another type (its coercions differ between its versions)
  is a parameter: \<open>lax_int\<close>, \<open>lax_str\<close> and \<open>lax_bool\<close> answer \<open>None\<close> where it rejects.
  \<open>None\<close> as a result stands for \<open>ValidationError\<close>.
\<close>

record pydantic_lax =
  lax_int :: "json \<Rightarrow> int option"
  lax_str :: "json \<Rightarrow> string option"
  lax_bool :: "json \<Rightarrow> bool option"

definition validate_int :: "pydantic_lax \<Rightarrow> json \<Rightarrow> int option" where
  "validate_int P v = (case v of JInt i \<Rightarrow> Some i | _ \<Rightarrow> lax_int P v)"

definition validate_str :: "pydantic_lax \<Rightarrow> json \<Rightarrow> string option" where
  "validate_str P v = (case v of JStr s \<Rightarrow> Some s | _ \<Rightarrow> lax_str P v)"

definition validate_bool :: "pydantic_lax \<Rightarrow> json \<Rightarrow> bool option" where
  "validate_bool P v = (case v of JBool b \<Rightarrow> Some b | _ \<Rightarrow> lax_bool P v)"

text \<open>\<open>Optional[T]\<close>, \<open>List[T]\<close>, a required field and a field with a default.\<close>

definition validate_optional :: "(json \<Rightarrow> 'a option) \<Rightarrow> json \<Rightarrow> 'a option option" where
  "validate_optional f v = (case v of JNull \<Rightarrow> Some None | _ \<Rightarrow> map_option Some (f v))"

definition validate_list :: "(json \<Rightarrow> 'a option) \<Rightarrow> json \<Rightarrow> 'a list option" where
  "validate_list f v = (case v of JList xs \<Rightarrow> those (map f xs) | _ \<Rightarrow> None)"

definition required :: "(string \<times> json) list \<Rightarrow> string \<Rightarrow> (json \<Rightarrow> 'a option) \<Rightarrow> 'a option" where
  "required kvs k f = (case map_of kvs k of None \<Rightarrow> None | Some v \<Rightarrow> f v)"

definition with_default :: "(string \<times> json) list \<Rightarrow> string \<Rightarrow> 'a \<Rightarrow> (json \<Rightarrow> 'a option) \<Rightarrow> 'a option" where
  "with_default kvs k d f = (case map_of kvs k of None \<Rightarrow> Some d | Some v \<Rightarrow> f v)"

text \<open>\<open>interval_seconds: int = Field(default=30, ge=5, le=3600)\<close>.\<close>

definition validate_interval :: "pydantic_lax \<Rightarrow> json \<Rightarrow> int option" where
  "validate_interval P v =
     Option.bind (validate_int P v) (\<lambda>i. if 5 \<le> i \<and> i \<le> 3600 then Some i else None)"

definition validate_ServerConfig :: "pydantic_lax \<Rightarrow> json \<Rightarrow> ServerConfig option" where
  "validate_ServerConfig P v =
     (case v of
        JDict kvs \<Rightarrow>
          Option.bind (required kvs ''url'' (validate_str P)) (\<lambda>u.
          Option.bind (required kvs ''api_key'' (validate_str P)) (\<lambda>k.
          Some \<lparr>server_url = u, api_key = k\<rparr>))
      | _ \<Rightarrow> None)"

definition validate_CollectionConfig :: "pydantic_lax \<Rightarrow> json \<Rightarrow> CollectionConfig option" where
  "validate_CollectionConfig P v =
     (case v of
        JDict kvs \<Rightarrow>
          Option.bind (with_default kvs ''interval_seconds'' 30 (validate_interval P)) (\<lambda>i.
          Option.bind (with_default kvs ''include_docker'' True (validate_bool P)) (\<lambda>d.
          Option.bind (with_default kvs ''disk_mounts'' [''/''] (validate_list (validate_str P))) (\<lambda>m.
          Some \<lparr>interval_seconds = i, include_docker = d, disk_mounts = m\<rparr>)))
      | _ \<Rightarrow> None)"

definition validate_HealthCheckConfig :: "pydantic_lax \<Rightarrow> json \<Rightarrow> HealthCheckConfig option" where
  "validate_HealthCheckConfig P v =
     (case v of
        JDict kvs \<Rightarrow>
          Option.bind (required kvs ''name'' (validate_str P)) (\<lambda>n.
          Option.bind (required kvs ''type'' (validate_str P)) (\<lambda>t.
          Option.bind (with_default kvs ''url'' None (validate_optional (validate_str P))) (\<lambda>u.
          Option.bind (with_default kvs ''host'' None (validate_optional (validate_str P))) (\<lambda>h.
          Option.bind (with_default kvs ''port'' None (validate_optional (validate_int P))) (\<lambda>p.
          Option.bind (with_default kvs ''expected_status'' (Some 200)
                         (validate_optional (validate_int P))) (\<lambda>x.
          Some \<lparr>check_name = n, check_type = t, url = u, host = h, port = p,
                expected_status = x\<rparr>))))))
      | _ \<Rightarrow> None)"

definition validate_AgentConfig :: "pydantic_lax \<Rightarrow> (string \<times> json) list \<Rightarrow> AgentConfig option" where
  "validate_AgentConfig P kvs =
     Option.bind (required kvs ''server'' (validate_ServerConfig P)) (\<lambda>s.
     Option.bind (with_default kvs ''collection'' default_collection (validate_CollectionConfig P)) (\<lambda>c.
     Option.bind (with_default kvs ''health_checks'' []
                    (validate_list (validate_HealthCheckConfig P))) (\<lambda>h.
     Some \<lparr>server = s, collection = c, health_checks = h\<rparr>)))"

text \<open>The call of \<open>AgentConfig\<close> on the entries of \<open>config_dict\<close>.\<close>

definition AgentConfig_of :: "pydantic_lax \<Rightarrow> json \<Rightarrow> py_exn + AgentConfig" where
  "AgentConfig_of P config_dict =
     (case config_dict of
        JDict kvs \<Rightarrow>
          (case validate_AgentConfig P kvs of
             None \<Rightarrow> Inl (Exc ValidationError ''validation error for AgentConfig'')
           | Some cfg \<Rightarrow> Inr cfg)
      | _ \<Rightarrow> Inl (Exc TypeError ''argument after ** must be a mapping''))"

text \<open>How a call ends that may call \<open>sys.exit\<close>.\<close>

datatype 'a exit_or = Returned 'a | SystemExit int | Propagated py_exn

fun is_FileNotFoundError :: "py_exn \<Rightarrow> bool" where
  "is_FileNotFoundError (Exc FileNotFoundError m) = True"
| "is_FileNotFoundError e = False"

fun is_ValidationError :: "py_exn \<Rightarrow> bool" where
  "is_ValidationError (Exc ValidationError m) = True"
| "is_ValidationError e = False"

text \<open>The three \<open>except\<close> clauses of \<open>load_config\<close>, in their order.\<close>

definition load_config_except :: "string \<Rightarrow> py_exn \<Rightarrow> effect list \<times> AgentConfig exit_or" where
  "load_config_except config_path e =
     (if is_FileNotFoundError e
      then ([Log ERROR (''Configuration file not found: '' @ config_path)], SystemExit 1)
      else if is_ValidationError e
      then ([Log ERROR (''Configuration validation error: '' @ exn_str e)], SystemExit 1)
      else if is_Exception e
      then ([Log ERROR (''Failed to load configuration: '' @ exn_str e)], SystemExit 1)
      else ([], Propagated e))"

text \<open>
  \<open>load_config\<close>: \<open>fs\<close> answers \<open>open(config_path)\<close> and the read (the text of the file, or
  the exception), \<open>yaml_safe_load\<close> is the parser of the YAML library, \<open>environ\<close> the
  environment of the process.
\<close>

definition load_config ::
  "pydantic_lax \<Rightarrow> (string \<Rightarrow> py_exn + json) \<Rightarrow> (string \<Rightarrow> string option) \<Rightarrow>
   (string \<Rightarrow> py_exn + string) \<Rightarrow> string \<Rightarrow> effect list \<times> AgentConfig exit_or" where
  "load_config P yaml_safe_load environ fs config_path =
     (case and_then (fs config_path) (\<lambda>content.
           and_then (yaml_safe_load content) (\<lambda>config_dict.
           and_then (substitute_api_key environ config_dict) (\<lambda>d.
           AgentConfig_of P d))) of
        Inr cfg \<Rightarrow> ([], Returned cfg)
      | Inl e \<Rightarrow> load_config_except config_path e)"

section \<open>Agent: sending and the loop\<close>

text \<open>\<open>response.raise_for_status()\<close> of requests: an \<open>HTTPError\<close> for a status code from
  400 to 599, nothing otherwise.\<close>

definition raise_for_status :: "string \<Rightarrow> response \<Rightarrow> py_exn option" where
  "raise_for_status u r =
     (if 400 \<le> status_code r \<and> status_code r < 500
      then Some (Exc HTTPError (str_int (status_code r) @ '' Client Error: '' @ reason r
                                  @ '' for url: '' @ u))
      else if 500 \<le> status_code r \<and> status_code r < 600
      then Some (Exc HTTPError (str_int (status_code r) @ '' Server Error: '' @ reason r
                                  @ '' for url: '' @ u))
      else None)"

text \<open>\<open>send_metrics\<close>: \<open>post_reply\<close> is what \<open>session.post\<close> answers. The call is in the
  trace; an exception that is no \<open>RequestException\<close> leaves the function.\<close>

definition send_metrics ::
  "AgentConfig \<Rightarrow> json \<Rightarrow> (py_exn + response) \<Rightarrow> effect list \<times> (py_exn + bool)" where
  "send_metrics cfg payload post_reply =
     (let u = server_url (server cfg) @ ''/metrics'';
          raised = (case post_reply of
                      Inl e \<Rightarrow> Some e
                    | Inr r \<Rightarrow> raise_for_status u r)
      in case raised of
           None \<Rightarrow>
             ([HttpPost u payload,
               Log INFO (''Metrics sent successfully (status: ''
                         @ (case post_reply of Inr r \<Rightarrow> str_int (status_code r) | Inl e \<Rightarrow> [])
                         @ '')'')],
              Inr True)
         | Some e \<Rightarrow>
             if is_RequestException e
             then ([HttpPost u payload, Log ERROR (''Failed to send metrics: '' @ exn_str e)],
                   Inr False)
             else ([HttpPost u payload], Inl e))"

text \<open>\<open>time.sleep(secs)\<close>: refuses a negative length; a signal may interrupt it.\<close>

definition time_sleep :: "int \<Rightarrow> bool \<Rightarrow> effect list \<times> (py_exn + unit)" where
  "time_sleep secs interrupted =
     (if secs < 0 then ([], Inl (Exc ValueError ''sleep length must be non-negative''))
      else if interrupted then ([Sleep secs], Inl KeyboardInterrupt)
      else ([Sleep secs], Inr ()))"

text \<open>What the world answers during one cycle of the loop.\<close>

record cycle_env =
  collect :: collect_env
  probes :: "nat \<Rightarrow> probe_env"
  post_reply :: "py_exn + response"
  sleep_interrupted :: bool
  handler_sleep_interrupted :: bool

text \<open>The snapshot of a cycle: \<open>collect_all\<close>, \<open>check_all\<close>, and the results attached
  \<open>if health_checks:\<close>, that is, when the list of results is not empty.\<close>

definition snapshot ::
  "AgentConfig \<Rightarrow> MetricsCollector \<Rightarrow> cycle_env \<Rightarrow>
   (effect list \<times> (py_exn + json)) \<times> MetricsCollector" where
  "snapshot cfg self env =
     (case collect_all self (collect env) of
        ((logs, Inl e), self') \<Rightarrow> ((logs, Inl e), self')
      | ((logs, Inr metrics), self') \<Rightarrow>
          (case check_all (probes env) (health_checks cfg) of
             Inl e \<Rightarrow> ((logs, Inl e), self')
           | Inr results \<Rightarrow>
               if results \<noteq> []
               then ((logs, py_setitem metrics ''health_checks'' (JList results)), self')
               else ((logs, Inr metrics), self')))"

text \<open>The body of the \<open>try\<close>: snapshot, send (the result is not read), sleep.\<close>

definition cycle_body ::
  "AgentConfig \<Rightarrow> MetricsCollector \<Rightarrow> cycle_env \<Rightarrow>
   (effect list \<times> (py_exn + unit)) \<times> MetricsCollector" where
  "cycle_body cfg self env =
     (case snapshot cfg self env of
        ((logs, Inl e), self') \<Rightarrow> ((logs, Inl e), self')
      | ((logs, Inr metrics), self') \<Rightarrow>
          (case send_metrics cfg metrics (post_reply env) of
             (sent, Inl e) \<Rightarrow> ((logs @ sent, Inl e), self')
           | (sent, Inr ok) \<Rightarrow>
               (case time_sleep (interval_seconds (collection cfg)) (sleep_interrupted env) of
                  (slept, r) \<Rightarrow> ((logs @ sent @ slept, r), self'))))"






section \<open>Vocabulary of the properties\<close>

text \<open>A probe that the user does not interrupt: neither of its replies is
  \<open>KeyboardInterrupt\<close>.\<close>

definition no_interrupt :: "probe_env \<Rightarrow> bool" where
  "no_interrupt p =
     (http_reply p \<noteq> Inl KeyboardInterrupt \<and> tcp_reply p \<noteq> Inl KeyboardInterrupt)"

text \<open>The checks that \<open>check_all\<close> runs: those of type \<open>http\<close> or \<open>tcp\<close>.\<close>

definition probed :: "HealthCheckConfig \<Rightarrow> bool" where
  "probed c = (check_type c = ''http'' \<or> check_type c = ''tcp'')"

fun is_HttpPost :: "effect \<Rightarrow> bool" where
  "is_HttpPost (HttpPost u p) = True"
| "is_HttpPost e = False"

text \<open>Concrete inputs: a configuration, three checks (the second of a type that is not
  probed, the third without a port) and the answers of the network to a probe.\<close>

definition example_config :: AgentConfig where
  "example_config =
     \<lparr>server = \<lparr>server_url = ''http://monitor.local:8000/api/v1'', api_key = ''secret''\<rparr>,
      collection = default_collection,
      health_checks = []\<rparr>"

definition example_checks :: "HealthCheckConfig list" where
  "example_checks =
     [\<lparr>check_name = ''web'', check_type = ''http'', url = Some ''http://localhost:8080/health'',
       host = None, port = None, expected_status = Some 200\<rparr>,
      \<lparr>check_name = ''cron'', check_type = ''process'', url = None,
       host = None, port = None, expected_status = Some 200\<rparr>,
      \<lparr>check_name = ''db'', check_type = ''tcp'', url = None,
       host = Some ''localhost'', port = None, expected_status = Some 200\<rparr>]"

definition example_probe :: "int \<Rightarrow> probe_env" where
  "example_probe code =
     \<lparr>http_reply = Inr \<lparr>status_code = code, reason = ''''\<rparr>,
      tcp_reply = Inr 0, start_time = 10, end_time = 10 + 1 / 8\<rparr>"

text \<open>A configuration document with the interval \<open>n\<close> and an API key taken from the
  environment; a pydantic that coerces nothing; an environment.\<close>

definition config_doc :: "int \<Rightarrow> json" where
  "config_doc n =
     JDict [(''server'', JDict [(''url'', JStr ''http://monitor.local:8000/api/v1''),
                                (''api_key'', JStr ''${MONITOR_API_KEY}'')]),
            (''collection'', JDict [(''interval_seconds'', JInt n)])]"

definition strict_pydantic :: pydantic_lax where
  "strict_pydantic = \<lparr>lax_int = (\<lambda>v. None), lax_str = (\<lambda>v. None), lax_bool = (\<lambda>v. None)\<rparr>"

definition example_environ :: "string \<Rightarrow> string option" where
  "example_environ = (\<lambda>n. if n = ''MONITOR_API_KEY'' then Some ''k3y'' else None)"








text \<open>Concrete answers of the world: a collection on a host without the docker library,
  a cycle in which everything succeeds, and three cycles that fail in turn: the POST is
  refused, the CPU sampling raises, and the POST raises an exception that is no
  \<open>RequestException\<close>.\<close>

definition example_collect :: collect_env where
  "example_collect =
     \<lparr>timestamp_now = ''2024-01-01T00:00:00+00:00'',
      system_info_reply = Inr (JDict [(''hostname'', JStr ''unknown'')]),
      cpu_reply = Inr (JDict [(''count'', JInt 4)]),
      memory_reply = Inr (JDict [(''percent'', JNum (1 / 2))]),
      disks_reply = Inr (JList []),
      disk_io_reply = Inr (Some \<lparr>read_bytes = 4096, write_bytes = 512\<rparr>),
      disk_io_time = 100,
      net_io_reply = Inr (Some \<lparr>bytes_sent = 900, bytes_recv = 300\<rparr>),
      net_io_time = 101,
      docker_reply = Inl (Exc ImportError ''No module named docker'')\<rparr>"

definition example_cycle :: cycle_env where
  "example_cycle =
     \<lparr>collect = example_collect, probes = (\<lambda>i. example_probe 200),
      post_reply = Inr \<lparr>status_code = 200, reason = ''OK''\<rparr>,
      sleep_interrupted = False, handler_sleep_interrupted = False\<rparr>"


section \<open>Verified properties: the rate collections\<close>

text \<open>
  C1 (the code departs from the claim). Two cycles of \<open>collect_all\<close>'s rate collections,
  disk first and network second, thirty seconds apart. In the second cycle the disk
  collection has just stored its own time stamp in the one \<open>last_time\<close>, so the network
  rate is the growth of the counters divided by the millisecond between the two calls,
  not by the thirty seconds since the previous network sample: 3000000 bytes per second
  are reported where the counters grew by 100 bytes per second. The network collection
  leaves \<open>last_time\<close> as the disk collection set it.
\<close>

theorem network_rate_uses_disk_timestamp:
  "(let s0 = MetricsCollector_init default_collection;
        (d1, s1) = collect_disk_io_metrics s0 (Some \<lparr>read_bytes = 0, write_bytes = 0\<rparr>) 0;
        (n1, s2) = collect_network_metrics s1
                     (Some \<lparr>bytes_sent = 1000, bytes_recv = 1000\<rparr>) (1 / 1000);
        (d2, s3) = collect_disk_io_metrics s2 (Some \<lparr>read_bytes = 0, write_bytes = 0\<rparr>) 30;
        (n2, s4) = collect_network_metrics s3
                     (Some \<lparr>bytes_sent = 4000, bytes_recv = 7000\<rparr>) (30 + 1 / 1000)
    in n2 = Inr (network_dict 4000 7000 3000000 6000000) \<and>
       last_time s4 = Some 30 \<and>
       py_int (of_int (4000 - 1000) / ((30 + 1 / 1000) - 1 / 1000)) = 100)"
  by (simp add: collect_disk_io_metrics_def collect_network_metrics_def MetricsCollector_init_def
      py_truediv_def py_int_def Let_def)

text \<open>
  C2 (as the code has it). A rate collection that finds no previous sample (the
  counters or the time stamp are absent) stores the current counters and the current
  time stamp and returns a dictionary whose four entries are all 0: the two rates and
  also the two cumulative totals, whatever the current counters are.
\<close>

theorem first_call_zero_result:
  "(last_disk_io self = None \<or> last_time self = None \<longrightarrow>
      collect_disk_io_metrics self io t =
        (Inr (disk_io_dict 0 0 0 0), self\<lparr>last_disk_io := io, last_time := Some t\<rparr>)) \<and>
   (last_net_io self = None \<or> last_time self = None \<longrightarrow>
      collect_network_metrics self net t =
        (Inr (network_dict 0 0 0 0), self\<lparr>last_net_io := net, last_time := Some t\<rparr>))"
  by (auto simp: collect_disk_io_metrics_def collect_network_metrics_def split: option.splits)

theorem first_call_zero_result_witness:
  "collect_disk_io_metrics (MetricsCollector_init default_collection)
      (Some \<lparr>read_bytes = 4096, write_bytes = 512\<rparr>) 100 =
     (Inr (disk_io_dict 0 0 0 0),
      \<lparr>config = default_collection,
       last_disk_io = Some \<lparr>read_bytes = 4096, write_bytes = 512\<rparr>,
       last_net_io = None, last_time = Some 100\<rparr>) \<and>
   collect_network_metrics (MetricsCollector_init default_collection)
      (Some \<lparr>bytes_sent = 900, bytes_recv = 300\<rparr>) 100 =
     (Inr (network_dict 0 0 0 0),
      \<lparr>config = default_collection, last_disk_io = None,
       last_net_io = Some \<lparr>bytes_sent = 900, bytes_recv = 300\<rparr>, last_time = Some 100\<rparr>)"
  using first_call_zero_result [of "MetricsCollector_init default_collection"
      "Some \<lparr>read_bytes = 4096, write_bytes = 512\<rparr>" 100
      "Some \<lparr>bytes_sent = 900, bytes_recv = 300\<rparr>"]
  by (simp add: MetricsCollector_init_def)

text \<open>The first call on counters 4096 and 512 reports \<open>read_bytes = 0\<close>, not 4096.\<close>

theorem first_call_totals_counterexample:
  "(case fst (collect_disk_io_metrics (MetricsCollector_init default_collection)
       (Some \<lparr>read_bytes = 4096, write_bytes = 512\<rparr>) 100) of
      Inr d \<Rightarrow> dict_get d ''read_bytes'' = Some (JInt 0) \<and>
               dict_get d ''read_bytes'' \<noteq> Some (JInt 4096)
    | Inl e \<Rightarrow> False)"
  by (simp add: collect_disk_io_metrics_def MetricsCollector_init_def disk_io_dict_def)

section \<open>Verified properties: sending\<close>

lemma is_Exception_iff: "is_Exception e = (e \<noteq> KeyboardInterrupt)"
  by (cases e) auto

lemma RequestException_is_Exception: "is_RequestException e \<Longrightarrow> is_Exception e"
  by (cases e) auto

text \<open>
  C3 (as the code has it). \<open>send_metrics\<close> returns \<open>True\<close> exactly when the POST comes
  back with a status code outside 400..599, the codes for which \<open>raise_for_status\<close>
  raises. A \<open>RequestException\<close> of the POST (a connection error, a timeout) and a
  response with a code from 400 to 599 are logged as an error and give \<open>False\<close>. In
  every case the trace holds exactly one POST: nothing is sent again.
\<close>

theorem send_metrics_result:
  "(snd (send_metrics cfg payload reply) = Inr True \<longleftrightarrow>
      (\<exists>r. reply = Inr r \<and> \<not> (400 \<le> status_code r \<and> status_code r < 600))) \<and>
   ((\<exists>e. reply = Inl e \<and> is_RequestException e) \<or>
    (\<exists>r. reply = Inr r \<and> 400 \<le> status_code r \<and> status_code r < 600) \<longrightarrow>
      (\<exists>msg. send_metrics cfg payload reply =
         ([HttpPost (server_url (server cfg) @ ''/metrics'') payload,
           Log ERROR (''Failed to send metrics: '' @ msg)], Inr False))) \<and>
   length (filter is_HttpPost (fst (send_metrics cfg payload reply))) = 1"
  by (cases reply)
     (auto simp: send_metrics_def raise_for_status_def Let_def split: option.splits)

theorem send_metrics_result_witness:
  "send_metrics example_config (JDict [])
      (Inr \<lparr>status_code = 503, reason = ''Service Unavailable''\<rparr>) =
     ([HttpPost ''http://monitor.local:8000/api/v1/metrics'' (JDict []),
       Log ERROR ''Failed to send metrics: 503 Server Error: Service Unavailable for url: http://monitor.local:8000/api/v1/metrics''],
      Inr False)"
  using send_metrics_result [of example_config "JDict []"
      "Inr \<lparr>status_code = 503, reason = ''Service Unavailable''\<rparr>"]
  by (simp add: send_metrics_def raise_for_status_def example_config_def str_int_def digit_char_def
      Let_def)

text \<open>A response 304 is no 2xx, and \<open>send_metrics\<close> returns \<open>True\<close> on it.\<close>

theorem send_metrics_304_counterexample:
  "snd (send_metrics example_config (JDict [])
          (Inr \<lparr>status_code = 304, reason = ''Not Modified''\<rparr>)) = Inr True"
  by (simp add: send_metrics_def raise_for_status_def Let_def)

section \<open>Verified properties: the health checks\<close>

lemma failed_check_fields:
  "dict_get (failed_check c k e) ''healthy'' = Some (JBool False)"
  "dict_get (failed_check c k e) ''message'' = Some (JStr (exn_str e))"
  "dict_get (failed_check c k e) ''status_code'' = None"
  "dict_get (failed_check c k e) ''name'' = Some (JStr (check_name c))"
  "dict_get (failed_check c k e) ''type'' = Some (JStr k)"
  by (simp_all add: failed_check_def)

lemma check_http_labels:
  "check_http c p = Inr r \<Longrightarrow>
     dict_get r ''name'' = Some (JStr (check_name c)) \<and> dict_get r ''type'' = Some (JStr ''http'')"
  by (auto simp: check_http_def failed_check_def Let_def split: sum.splits if_splits)

lemma check_tcp_labels:
  "check_tcp c p = Inr r \<Longrightarrow>
     dict_get r ''name'' = Some (JStr (check_name c)) \<and> dict_get r ''type'' = Some (JStr ''tcp'')"
  by (auto simp: check_tcp_def failed_check_def Let_def split: sum.splits if_splits)

lemma requests_get_no_interrupt:
  "no_interrupt p \<Longrightarrow> requests_get u (http_reply p) \<noteq> Inl KeyboardInterrupt"
  by (auto simp: requests_get_def no_interrupt_def split: option.splits)

lemma connect_ex_no_interrupt:
  "no_interrupt p \<Longrightarrow> connect_ex h q (tcp_reply p) \<noteq> Inl KeyboardInterrupt"
  by (auto simp: connect_ex_def no_interrupt_def split: option.splits)

lemma check_http_total: "no_interrupt p \<Longrightarrow> \<exists>r. check_http c p = Inr r"
  using requests_get_no_interrupt [of p "url c"]
  by (auto simp: check_http_def Let_def is_Exception_iff split: sum.splits)

lemma check_tcp_total: "no_interrupt p \<Longrightarrow> \<exists>r. check_tcp c p = Inr r"
  using connect_ex_no_interrupt [of p "host c" "port c"]
  by (auto simp: check_tcp_def Let_def is_Exception_iff split: sum.splits)

lemma check_all_loop_results:
  "check_all_loop w i acc cs = Inr rs \<Longrightarrow>
     \<exists>new. rs = acc @ new \<and>
       map (\<lambda>r. dict_get r ''name'') new = map (\<lambda>c. Some (JStr (check_name c))) (filter probed cs) \<and>
       map (\<lambda>r. dict_get r ''type'') new = map (\<lambda>c. Some (JStr (check_type c))) (filter probed cs)"
proof (induction cs arbitrary: i acc)
  case Nil
  then show ?case by simp
next
  case (Cons c cs)
  show ?case
  proof (cases "check_type c = ''http''")
    case True
    with Cons.prems obtain r where r: "check_http c (w i) = Inr r"
      and rest: "check_all_loop w (Suc i) (acc @ [r]) cs = Inr rs"
      by (auto split: sum.splits)
    from Cons.IH [OF rest] obtain new where new: "rs = (acc @ [r]) @ new"
      "map (\<lambda>r. dict_get r ''name'') new = map (\<lambda>c. Some (JStr (check_name c))) (filter probed cs)"
      "map (\<lambda>r. dict_get r ''type'') new = map (\<lambda>c. Some (JStr (check_type c))) (filter probed cs)"
      by blast
    moreover from True have "probed c" by (simp add: probed_def)
    ultimately show ?thesis
      using check_http_labels [OF r] True by (intro exI [of _ "r # new"]) simp
  next
    case False
    note nh = False
    show ?thesis
    proof (cases "check_type c = ''tcp''")
      case True
      with nh Cons.prems obtain r where r: "check_tcp c (w i) = Inr r"
        and rest: "check_all_loop w (Suc i) (acc @ [r]) cs = Inr rs"
        by (auto split: sum.splits)
      from Cons.IH [OF rest] obtain new where new: "rs = (acc @ [r]) @ new"
        "map (\<lambda>r. dict_get r ''name'') new = map (\<lambda>c. Some (JStr (check_name c))) (filter probed cs)"
        "map (\<lambda>r. dict_get r ''type'') new = map (\<lambda>c. Some (JStr (check_type c))) (filter probed cs)"
        by blast
      moreover from True have "probed c" by (simp add: probed_def)
      ultimately show ?thesis
        using check_tcp_labels [OF r] True by (intro exI [of _ "r # new"]) simp
    next
      case False
      with nh Cons.prems have "check_all_loop w (Suc i) acc cs = Inr rs" by simp
      moreover from nh False have "\<not> probed c" by (simp add: probed_def)
      ultimately show ?thesis using Cons.IH [of "Suc i" acc] by simp
    qed
  qed
qed

lemma check_all_loop_total:
  "\<forall>j<length cs. no_interrupt (w (i + j)) \<Longrightarrow> \<exists>rs. check_all_loop w i acc cs = Inr rs"
proof (induction cs arbitrary: i acc)
  case Nil
  then show ?case by simp
next
  case (Cons c cs)
  from Cons.prems have here: "no_interrupt (w i)" by force
  from Cons.prems have later: "\<forall>j<length cs. no_interrupt (w (Suc i + j))" by force
  from check_http_total [OF here] obtain rh where rh: "check_http c (w i) = Inr rh" by blast
  from check_tcp_total [OF here] obtain rt where rt: "check_tcp c (w i) = Inr rt" by blast
  from Cons.IH [OF later] rh rt show ?case by simp
qed

text \<open>
  C5. Whenever \<open>check_all\<close> returns, its results are, in the order of the configured
  list, one per check of type \<open>http\<close> or \<open>tcp\<close>, each carrying the name and the type of
  its check; a check of another type adds nothing and raises nothing. It does return
  unless the user interrupts a probe.
\<close>

theorem check_all_one_result_per_probe:
  "(check_all w checks = Inr rs \<longrightarrow>
      map (\<lambda>r. dict_get r ''name'') rs =
        map (\<lambda>c. Some (JStr (check_name c))) (filter probed checks) \<and>
      map (\<lambda>r. dict_get r ''type'') rs =
        map (\<lambda>c. Some (JStr (check_type c))) (filter probed checks) \<and>
      length rs = length (filter probed checks)) \<and>
   ((\<forall>i<length checks. no_interrupt (w i)) \<longrightarrow> (\<exists>rs. check_all w checks = Inr rs))"
proof (intro conjI impI)
  assume r: "check_all w checks = Inr rs"
  from check_all_loop_results [of w 0 "[]" checks rs] r
  show names: "map (\<lambda>r. dict_get r ''name'') rs =
        map (\<lambda>c. Some (JStr (check_name c))) (filter probed checks)"
    and "map (\<lambda>r. dict_get r ''type'') rs =
        map (\<lambda>c. Some (JStr (check_type c))) (filter probed checks)"
    by (auto simp: check_all_def)
  from arg_cong [OF names, of length] show "length rs = length (filter probed checks)"
    by simp
next
  assume "\<forall>i<length checks. no_interrupt (w i)"
  then show "\<exists>rs. check_all w checks = Inr rs"
    using check_all_loop_total [of checks w 0 "[]"] by (simp add: check_all_def)
qed

theorem check_all_one_result_per_probe_witness:
  "check_all (\<lambda>i. example_probe 200) example_checks =
     Inr [JDict [(''name'', JStr ''web''), (''type'', JStr ''http''), (''healthy'', JBool True),
                 (''status_code'', JInt 200), (''response_time_ms'', JInt 125),
                 (''message'', JStr ''OK'')],
          failed_check (example_checks ! 2) ''tcp''
            (Exc TypeError ''NoneType object cannot be interpreted as an integer'')] \<and>
   map check_name (filter probed example_checks) = [''web'', ''db'']"
  using check_all_one_result_per_probe [of "\<lambda>i. example_probe 200" example_checks]
  by (simp add: check_all_def example_checks_def example_probe_def check_http_def check_tcp_def
      requests_get_def connect_ex_def probed_def py_int_def Let_def no_interrupt_def)

text \<open>
  C6. The result of \<open>check_http\<close> is healthy exactly when the GET returned a response
  whose status code is the expected one. A response with another code gives an
  unhealthy result that carries the code and the message \<open>Expected x, got y\<close> naming
  both codes. An \<open>Exception\<close> of the GET gives an unhealthy result whose message is
  \<open>str(e)\<close> and that has no \<open>status_code\<close> entry.
\<close>

theorem check_http_healthy_iff:
  "(check_http cfg env = Inr r \<longrightarrow>
      (dict_get r ''healthy'' = Some (JBool True) \<longleftrightarrow>
         (\<exists>resp. requests_get (url cfg) (http_reply env) = Inr resp \<and>
                 expected_status cfg = Some (status_code resp)))) \<and>
   (requests_get (url cfg) (http_reply env) = Inr resp \<and>
    expected_status cfg \<noteq> Some (status_code resp) \<longrightarrow>
      (\<exists>r. check_http cfg env = Inr r \<and>
           dict_get r ''healthy'' = Some (JBool False) \<and>
           dict_get r ''status_code'' = Some (JInt (status_code resp)) \<and>
           dict_get r ''message'' =
             Some (JStr (''Expected '' @ str_opt_int (expected_status cfg) @ '', got ''
                         @ str_int (status_code resp))))) \<and>
   (requests_get (url cfg) (http_reply env) = Inl e \<and> is_Exception e \<longrightarrow>
      (\<exists>r. check_http cfg env = Inr r \<and>
           dict_get r ''healthy'' = Some (JBool False) \<and>
           dict_get r ''message'' = Some (JStr (exn_str e)) \<and>
           dict_get r ''status_code'' = None))"
  by (auto simp: check_http_def failed_check_def Let_def split: sum.splits if_splits)

theorem check_http_healthy_iff_witness:
  "check_http (example_checks ! 0) (example_probe 503) =
     Inr (JDict [(''name'', JStr ''web''), (''type'', JStr ''http''), (''healthy'', JBool False),
                 (''status_code'', JInt 503), (''response_time_ms'', JInt 125),
                 (''message'', JStr ''Expected 200, got 503'')]) \<and>
   check_http (example_checks ! 0)
      ((example_probe 200)\<lparr>http_reply := Inl (Exc Timeout ''Read timed out.'')\<rparr>) =
     Inr (JDict [(''name'', JStr ''web''), (''type'', JStr ''http''), (''healthy'', JBool False),
                 (''message'', JStr ''Read timed out.'')])"
  using check_http_healthy_iff [of "example_checks ! 0" "example_probe 503" _
          "\<lparr>status_code = 503, reason = ''''\<rparr>"]
        check_http_healthy_iff [of "example_checks ! 0"
          "(example_probe 200)\<lparr>http_reply := Inl (Exc Timeout ''Read timed out.'')\<rparr>" _ _
          "Exc Timeout ''Read timed out.''"]
  by (simp add: example_checks_def example_probe_def check_http_def requests_get_def
      failed_check_def py_int_def Let_def str_opt_int_def str_int_def digit_char_def)



section \<open>Verified properties: loading the configuration\<close>

lemma map_of_dict_set:
  "map_of (dict_set kvs k v) k' = (if k' = k then Some v else map_of kvs k')"
  by (induction kvs) auto

lemma and_then_Inr:
  "and_then m f = Inr y \<longleftrightarrow> (\<exists>x. m = Inr x \<and> f x = Inr y)"
  by (cases m) auto

lemma and_then_Inl:
  "and_then m f = Inl e \<longleftrightarrow> m = Inl e \<or> (\<exists>x. m = Inr x \<and> f x = Inl e)"
  by (cases m) auto

lemma py_getitem_Inl: "py_getitem d k = Inl e \<Longrightarrow> is_Exception e"
  by (cases d) (auto split: option.splits)

lemma py_contains_Inl: "py_contains k d = Inl e \<Longrightarrow> is_Exception e"
  by (cases d) auto

lemma py_setitem_Inl: "py_setitem d k v = Inl e \<Longrightarrow> is_Exception e"
  by (cases d) auto

lemma replace_placeholder_Inl:
  "replace_placeholder environ cd srv key = Inl e \<Longrightarrow> is_Exception e"
  by (cases key) (auto simp: and_then_Inl split: if_splits dest: py_setitem_Inl)

lemma substitute_api_key_Inl: "substitute_api_key environ d = Inl e \<Longrightarrow> is_Exception e"
  by (auto simp: substitute_api_key_def and_then_Inl split: if_splits
      dest: py_getitem_Inl py_contains_Inl replace_placeholder_Inl)

lemma AgentConfig_of_Inl: "AgentConfig_of P d = Inl e \<Longrightarrow> is_Exception e"
  by (cases d) (auto simp: AgentConfig_of_def split: option.splits)

lemma py_setitem_Inr:
  "py_setitem d k v = Inr d' \<longleftrightarrow> (\<exists>kvs. d = JDict kvs \<and> d' = JDict (dict_set kvs k v))"
  by (cases d) auto

lemma replace_placeholder_keeps:
  assumes "replace_placeholder environ (JDict kvs) srv key = Inr d" and "k \<noteq> ''server''"
  shows "\<exists>kvs'. d = JDict kvs' \<and> map_of kvs' k = map_of kvs k"
  using assms
  by (cases key) (auto simp: and_then_Inr py_setitem_Inr map_of_dict_set split: if_splits)

lemma AgentConfig_of_Inr:
  "AgentConfig_of P d = Inr cfg \<Longrightarrow> \<exists>kvs. validate_AgentConfig P kvs = Some cfg"
  by (cases d) (auto simp: AgentConfig_of_def split: option.splits)

lemma substitute_api_key_keeps:
  assumes "substitute_api_key environ (JDict kvs) = Inr d" and "k \<noteq> ''server''"
  shows "\<exists>kvs'. d = JDict kvs' \<and> map_of kvs' k = map_of kvs k"
  using assms
  by (auto simp: substitute_api_key_def and_then_Inr split: if_splits
      dest: replace_placeholder_keeps)

lemma interval_out_of_range_rejected:
  assumes "map_of kvs ''collection'' = Some (JDict ckvs)"
    and "map_of ckvs ''interval_seconds'' = Some (JInt n)"
    and "n < 5 \<or> 3600 < n"
  shows "validate_AgentConfig P kvs = None"
  using assms
  by (auto simp: validate_AgentConfig_def validate_CollectionConfig_def with_default_def
      validate_interval_def validate_int_def Option.bind_eq_None_conv)

lemma validate_interval_range:
  "validate_interval P v = Some i \<Longrightarrow> 5 \<le> i \<and> i \<le> 3600"
  by (auto simp: validate_interval_def Option.bind_eq_Some_conv split: if_splits)

lemma validate_CollectionConfig_range:
  "validate_CollectionConfig P v = Some c \<Longrightarrow> 5 \<le> interval_seconds c \<and> interval_seconds c \<le> 3600"
  by (cases v)
     (auto simp: validate_CollectionConfig_def with_default_def Option.bind_eq_Some_conv
        split: option.splits dest: validate_interval_range)

lemma validate_AgentConfig_range:
  "validate_AgentConfig P kvs = Some cfg \<Longrightarrow>
     5 \<le> interval_seconds (collection cfg) \<and> interval_seconds (collection cfg) \<le> 3600"
  by (auto simp: validate_AgentConfig_def with_default_def Option.bind_eq_Some_conv
        default_collection_def
        split: option.splits dest: validate_CollectionConfig_range)

lemma load_config_cases:
  "load_config P y environ fs path =
     (case and_then (fs path) (\<lambda>content. and_then (y content) (\<lambda>config_dict.
            and_then (substitute_api_key environ config_dict) (AgentConfig_of P))) of
        Inr cfg \<Rightarrow> ([], Returned cfg)
      | Inl e \<Rightarrow> load_config_except path e)"
  by (simp add: load_config_def)

lemma load_config_except_exit:
  "is_Exception e \<Longrightarrow> snd (load_config_except path e) = SystemExit 1"
  by (simp add: load_config_except_def)

text \<open>
  C7. \<open>load_config\<close> ends in \<open>sys.exit(1)\<close>, returning no configuration, when the file
  is missing, when the parser raises on a malformed document, and when the validation
  fails; a document whose \<open>collection.interval_seconds\<close> is an integer below 5 or above
  3600 fails it, whatever else the document holds. The document with the interval \<open>n\<close>
  is returned as a configuration when \<open>5 \<le> n \<le> 3600\<close> (so 30 is accepted and 3 is not),
  and every configuration that \<open>load_config\<close> returns has its interval in that range.
\<close>

theorem load_config_fatal:
  "(fs path = Inl (Exc FileNotFoundError m) \<longrightarrow>
      load_config P y environ fs path =
        ([Log ERROR (''Configuration file not found: '' @ path)], SystemExit 1)) \<and>
   (fs path = Inr content \<and> y content = Inl e \<and> is_Exception e \<longrightarrow>
      snd (load_config P y environ fs path) = SystemExit 1) \<and>
   (fs path = Inr content \<and> y content = Inr doc \<and>
    substitute_api_key environ doc = Inr d \<and> AgentConfig_of P d = Inl e \<longrightarrow>
      snd (load_config P y environ fs path) = SystemExit 1) \<and>
   (fs path = Inr content \<and> y content = Inr (JDict kvs) \<and>
    map_of kvs ''collection'' = Some (JDict ckvs) \<and>
    map_of ckvs ''interval_seconds'' = Some (JInt n) \<and> (n < 5 \<or> 3600 < n) \<longrightarrow>
      snd (load_config P y environ fs path) = SystemExit 1) \<and>
   (fs path = Inr content \<and> y content = Inr (config_doc n) \<and> 5 \<le> n \<and> n \<le> 3600 \<longrightarrow>
      load_config P y environ fs path =
        ([], Returned
           \<lparr>server = \<lparr>server_url = ''http://monitor.local:8000/api/v1'',
                      api_key = getenv environ ''MONITOR_API_KEY''\<rparr>,
            collection = \<lparr>interval_seconds = n, include_docker = True, disk_mounts = [''/'']\<rparr>,
            health_checks = []\<rparr>)) \<and>
   (snd (load_config P y environ fs path) = Returned cfg \<longrightarrow>
      5 \<le> interval_seconds (collection cfg) \<and> interval_seconds (collection cfg) \<le> 3600)"
proof (intro conjI impI)
  assume "fs path = Inl (Exc FileNotFoundError m)"
  then show "load_config P y environ fs path =
        ([Log ERROR (''Configuration file not found: '' @ path)], SystemExit 1)"
    by (simp add: load_config_def load_config_except_def)
next
  assume "fs path = Inr content \<and> y content = Inl e \<and> is_Exception e"
  then show "snd (load_config P y environ fs path) = SystemExit 1"
    by (simp add: load_config_def load_config_except_exit)
next
  assume "fs path = Inr content \<and> y content = Inr doc \<and>
    substitute_api_key environ doc = Inr d \<and> AgentConfig_of P d = Inl e"
  then show "snd (load_config P y environ fs path) = SystemExit 1"
    using AgentConfig_of_Inl [of P d e]
    by (simp add: load_config_def load_config_except_exit)
next
  assume a: "fs path = Inr content \<and> y content = Inr (JDict kvs) \<and>
    map_of kvs ''collection'' = Some (JDict ckvs) \<and>
    map_of ckvs ''interval_seconds'' = Some (JInt n) \<and> (n < 5 \<or> 3600 < n)"
  show "snd (load_config P y environ fs path) = SystemExit 1"
  proof (cases "substitute_api_key environ (JDict kvs)")
    case (Inl e)
    with a show ?thesis
      by (simp add: load_config_def load_config_except_exit substitute_api_key_Inl)
  next
    case (Inr d)
    from substitute_api_key_keeps [OF Inr, of "''collection''"] obtain kvs'
      where d: "d = JDict kvs'" and "map_of kvs' ''collection'' = map_of kvs ''collection''"
      by auto
    with a have "validate_AgentConfig P kvs' = None"
      by (intro interval_out_of_range_rejected [of kvs' ckvs n]) auto
    with a Inr d show ?thesis
      by (simp add: load_config_def AgentConfig_of_def load_config_except_def)
  qed
next
  assume "fs path = Inr content \<and> y content = Inr (config_doc n) \<and> 5 \<le> n \<and> n \<le> 3600"
  then show "load_config P y environ fs path =
        ([], Returned
           \<lparr>server = \<lparr>server_url = ''http://monitor.local:8000/api/v1'',
                      api_key = getenv environ ''MONITOR_API_KEY''\<rparr>,
            collection = \<lparr>interval_seconds = n, include_docker = True, disk_mounts = [''/'']\<rparr>,
            health_checks = []\<rparr>)"
    by (simp add: load_config_def config_doc_def substitute_api_key_def starts_with_def
        ends_with_def AgentConfig_of_def validate_AgentConfig_def validate_ServerConfig_def
        validate_CollectionConfig_def required_def with_default_def validate_str_def
        validate_interval_def validate_int_def)
next
  assume r: "snd (load_config P y environ fs path) = Returned cfg"
  then have "\<exists>d. AgentConfig_of P d = Inr cfg"
    by (auto simp: load_config_def load_config_except_def and_then_Inr
        split: sum.splits if_splits)
  then obtain kvs where "validate_AgentConfig P kvs = Some cfg"
    by (auto dest: AgentConfig_of_Inr)
  then show "5 \<le> interval_seconds (collection cfg)"
    and "interval_seconds (collection cfg) \<le> 3600"
    by (auto dest: validate_AgentConfig_range)
qed

theorem load_config_fatal_witness:
  "load_config strict_pydantic (\<lambda>t. Inr (config_doc 3)) example_environ
      (\<lambda>p. if p = ''config.yaml'' then Inr ''...'' else Inl (Exc FileNotFoundError p))
      ''config.yaml'' =
     ([Log ERROR ''Configuration validation error: validation error for AgentConfig''],
      SystemExit 1) \<and>
   load_config strict_pydantic (\<lambda>t. Inr (config_doc 30)) example_environ
      (\<lambda>p. if p = ''config.yaml'' then Inr ''...'' else Inl (Exc FileNotFoundError p))
      ''config.yaml'' =
     ([], Returned
        \<lparr>server = \<lparr>server_url = ''http://monitor.local:8000/api/v1'', api_key = ''k3y''\<rparr>,
         collection = \<lparr>interval_seconds = 30, include_docker = True, disk_mounts = [''/'']\<rparr>,
         health_checks = []\<rparr>) \<and>
   load_config strict_pydantic (\<lambda>t. Inr (config_doc 30)) example_environ
      (\<lambda>p. if p = ''config.yaml'' then Inr ''...'' else Inl (Exc FileNotFoundError p))
      ''missing.yaml'' =
     ([Log ERROR ''Configuration file not found: missing.yaml''], SystemExit 1)"
  using load_config_fatal [of
      "\<lambda>p. if p = ''config.yaml'' then Inr ''...'' else Inl (Exc FileNotFoundError p)"
      "''missing.yaml''" "''missing.yaml''" strict_pydantic "\<lambda>t. Inr (config_doc 30)"
      example_environ]
    load_config_fatal [of
      "\<lambda>p. if p = ''config.yaml'' then Inr ''...'' else Inl (Exc FileNotFoundError p)"
      "''config.yaml''" _ strict_pydantic "\<lambda>t. Inr (config_doc 30)"
      example_environ "''...''" _ _ _ _ _ 30]
  by (simp add: load_config_def config_doc_def substitute_api_key_def starts_with_def
        ends_with_def AgentConfig_of_def validate_AgentConfig_def validate_ServerConfig_def
        validate_CollectionConfig_def required_def with_default_def validate_str_def
        validate_interval_def validate_int_def load_config_except_def getenv_def
        example_environ_def strict_pydantic_def)

section \<open>Verified properties: container metrics\<close>





















section \<open>Verified properties: the agent loop\<close>


















lemma collect_all_keys:
  assumes "collect_all self ce = ((logs, Inr m), s)"
  shows "\<exists>kvs. m = JDict kvs \<and> map_of kvs ''health_checks'' = None"
  using assms
  by (auto simp: collect_all_def split: sum.splits prod.splits)

lemma check_all_nonempty:
  assumes "check_all w cs = Inr rs"
  shows "rs \<noteq> [] \<longleftrightarrow> (\<exists>c\<in>set cs. probed c)"
proof -
  from check_all_loop_results [of w 0 "[]" cs rs] assms
  have "map (\<lambda>r. dict_get r ''name'') rs =
          map (\<lambda>c. Some (JStr (check_name c))) (filter probed cs)"
    by (auto simp: check_all_def)
  from arg_cong [OF this, of length] have "length rs = length (filter probed cs)" by simp
  then have "rs = [] \<longleftrightarrow> filter probed cs = []" by (metis length_0_conv)
  then show ?thesis by (auto simp: filter_empty_conv)
qed



lemma snapshot_payload:
  assumes "snapshot cfg self env = ((logs, Inr payload), s)"
  shows "(dict_get payload ''health_checks'' \<noteq> None) = (\<exists>c\<in>set (health_checks cfg). probed c) \<and>
         (\<exists>results. check_all (probes env) (health_checks cfg) = Inr results \<and>
            (results \<noteq> [] \<longrightarrow> dict_get payload ''health_checks'' = Some (JList results)))"
proof (cases "collect_all self (collect env)")
  case (Pair a s1)
  obtain l r where a: "a = (l, r)" by (cases a)
  from assms Pair a obtain m where r: "r = Inr m"
    by (cases r) (auto simp: snapshot_def)
  from collect_all_keys [of self "collect env" l m s1] Pair a r
  obtain kvs where m: "m = JDict kvs" and none: "map_of kvs ''health_checks'' = None" by auto
  from assms Pair a r obtain rs where rs: "check_all (probes env) (health_checks cfg) = Inr rs"
    by (cases "check_all (probes env) (health_checks cfg)") (auto simp: snapshot_def)
  from assms Pair a r m rs
  have payload: "payload = (if rs \<noteq> [] then JDict (dict_set kvs ''health_checks'' (JList rs))
                            else JDict kvs)"
    by (auto simp: snapshot_def split: if_splits)
  from check_all_nonempty [OF rs] payload none rs show ?thesis
    by (auto simp: map_of_dict_set)
qed

lemma send_metrics_first:
  "\<exists>rest. fst (send_metrics cfg payload reply) =
     HttpPost (server_url (server cfg) @ ''/metrics'') payload # rest"
  by (auto simp: send_metrics_def Let_def split: option.splits)

lemma cycle_body_posts:
  assumes "snapshot cfg self env = ((logs, Inr payload), s)"
  shows "\<exists>rest. fst (fst (cycle_body cfg self env)) =
           logs @ HttpPost (server_url (server cfg) @ ''/metrics'') payload # rest"
proof -
  from send_metrics_first [of cfg payload "post_reply env"] obtain rest where
    "fst (send_metrics cfg payload (post_reply env)) =
       HttpPost (server_url (server cfg) @ ''/metrics'') payload # rest" by blast
  with assms show ?thesis
    by (cases "send_metrics cfg payload (post_reply env)")
       (auto simp: cycle_body_def split: sum.splits prod.splits)
qed














text \<open>The definitions that a concrete cycle unfolds.\<close>

lemmas eval_defs =
  example_cycle_def example_collect_def example_config_def default_collection_def
  example_checks_def example_probe_def MetricsCollector_init_def
  snapshot_def collect_all_def collect_disk_io_metrics_def collect_network_metrics_def
  collect_docker_metrics_def disk_io_dict_def network_dict_def
  check_all_def check_http_def check_tcp_def requests_get_def connect_ex_def
  failed_check_def py_int_def Let_def

text \<open>
  C9 (as the code has it). The snapshot of a cycle has a \<open>health_checks\<close> entry exactly
  when \<open>check_all\<close> returned a result, that is, when a configured check has the type
  \<open>http\<close> or \<open>tcp\<close>; the entry is the list of the results. The snapshot is the payload
  of the POST of that cycle.
\<close>

theorem snapshot_health_checks:
  "snapshot cfg self env = ((logs, Inr payload), s) \<longrightarrow>
     ((dict_get payload ''health_checks'' \<noteq> None) = (\<exists>c\<in>set (health_checks cfg). probed c)) \<and>
     (\<exists>results. check_all (probes env) (health_checks cfg) = Inr results \<and>
        (results \<noteq> [] \<longrightarrow> dict_get payload ''health_checks'' = Some (JList results))) \<and>
     (\<exists>rest. fst (fst (cycle_body cfg self env)) =
        logs @ HttpPost (server_url (server cfg) @ ''/metrics'') payload # rest)"
  using snapshot_payload [of cfg self env logs payload s]
    cycle_body_posts [of cfg self env logs payload s]
  by blast

theorem snapshot_health_checks_witness:
  "(case snapshot (example_config\<lparr>health_checks := example_checks\<rparr>)
           (MetricsCollector_init default_collection) example_cycle of
      ((logs, Inr payload), s) \<Rightarrow>
        dict_get payload ''health_checks'' =
          Some (JList [JDict [(''name'', JStr ''web''), (''type'', JStr ''http''),
                              (''healthy'', JBool True), (''status_code'', JInt 200),
                              (''response_time_ms'', JInt 125), (''message'', JStr ''OK'')],
                       JDict [(''name'', JStr ''db''), (''type'', JStr ''tcp''),
                              (''healthy'', JBool False),
                              (''message'',
                               JStr ''NoneType object cannot be interpreted as an integer'')]])
    | _ \<Rightarrow> False) \<and>
   (case snapshot example_config (MetricsCollector_init default_collection) example_cycle of
      ((logs, Inr payload), s) \<Rightarrow> dict_get payload ''health_checks'' = None
    | _ \<Rightarrow> False)"
  using snapshot_health_checks [of "example_config\<lparr>health_checks := example_checks\<rparr>"
      "MetricsCollector_init default_collection" example_cycle]
  by (simp add: eval_defs)

text \<open>One check of the type \<open>process\<close> is configured, and the snapshot has no
  \<open>health_checks\<close> entry.\<close>

theorem health_checks_configured_counterexample:
  "health_checks (example_config\<lparr>health_checks := [example_checks ! 1]\<rparr>) \<noteq> [] \<and>
   (case snapshot (example_config\<lparr>health_checks := [example_checks ! 1]\<rparr>)
           (MetricsCollector_init default_collection) example_cycle of
      ((logs, Inr payload), s) \<Rightarrow> dict_get payload ''health_checks'' = None
    | _ \<Rightarrow> False)"
  by (simp add: eval_defs)



end
